theory Spec2Isabelle
  imports Complex_Main "HOL-Library.Multiset"
begin

section \<open>Data model of \<^verbatim>\<open>crop_image.py\<close>\<close>

text \<open>
  A contour is the array of \<^verbatim>\<open>[x, y]\<close> points that the contour finder returns; an
  image is its rows of pixels, the pixel type being left open (only the shape of an image
  matters to the code modelled here). Python's integers are unbounded, hence \<open>int\<close>, and
  Python's \<^verbatim>\<open>//\<close> is floor division, as \<open>div\<close> on \<open>int\<close> is. The quotients written
  with \<^verbatim>\<open>/\<close> in \<^verbatim>\<open>is_rubik_square\<close> are floating-point numbers in the source and
  exact reals in this model.
\<close>

type_synonym point = "int \<times> int"
type_synonym contour = "point list"
type_synonym 'p image = "'p list list"

datatype error = IndexError | LibraryError

text \<open>
  \<^verbatim>\<open>imgheight, imgwidth, depth = np.shape(image)\<close>: the number of rows and the length
  of a row. An image without rows is given the width 0.
\<close>

definition imgheight :: "'p image \<Rightarrow> int" where
  "imgheight img = int (length img)"

definition imgwidth :: "'p image \<Rightarrow> int" where
  "imgwidth img = (case img of [] \<Rightarrow> 0 | row # _ \<Rightarrow> int (length row))"

text \<open>
  A slice \<^verbatim>\<open>xs[a:b]\<close>: a negative bound counts from the end, and both bounds are
  clamped to the length, so that a slice never raises.
\<close>

definition py_slice :: "int \<Rightarrow> int \<Rightarrow> 'a list \<Rightarrow> 'a list" where
  "py_slice a b xs =
     (let n = int (length xs);
          a' = (if a < 0 then max (a + n) 0 else min a n);
          b' = (if b < 0 then max (b + n) 0 else min b n)
      in take (nat (b' - a')) (drop (nat a') xs))"

section \<open>The crop geometry\<close>

record crop_plan =
  border_top :: int
  border_side :: int
  true_center_width :: int
  center_width :: int

text \<open>
  Lines 155 to 171 of \<^verbatim>\<open>identify_stickers\<close>. The \<^verbatim>\<open>elif imgwidth < imgheight\<close>
  is the complement of the first test, so it is the \<open>else\<close> here.
\<close>

definition crop_dimensions :: "int \<Rightarrow> int \<Rightarrow> crop_plan" where
  "crop_dimensions imgheight' imgwidth' =
     (if imgwidth' \<ge> imgheight' then
        (let larger_side = imgwidth';
             smaller_side = imgheight';
             border_top' = smaller_side div 8;
             border_side' = larger_side div 2 - 3 * border_top'
         in \<lparr>border_top = border_top', border_side = border_side',
             true_center_width = 4 * border_top', center_width = 6 * border_top'\<rparr>)
      else
        (let larger_side = imgheight';
             smaller_side = imgwidth';
             border_side' = smaller_side div 8;
             border_top' = larger_side div 2 - 3 * border_side'
         in \<lparr>border_top = border_top', border_side = border_side',
             true_center_width = 4 * border_side', center_width = 6 * border_side'\<rparr>))"

text \<open>
  Lines 26 to 32 and 58 to 64 of \<^verbatim>\<open>guidelines\<close>: the three values it computes before
  it draws the lines, as (\<^verbatim>\<open>border_top\<close>, \<^verbatim>\<open>border_side\<close>, \<^verbatim>\<open>center_width\<close>). The
  drawing itself is not modelled.
\<close>

definition guidelines_dimensions :: "int \<Rightarrow> int \<Rightarrow> int \<times> int \<times> int" where
  "guidelines_dimensions imgheight' imgwidth' =
     (if imgwidth' \<ge> imgheight' then
        (let larger_side = imgwidth';
             smaller_side = imgheight';
             border_top' = smaller_side div 8;
             border_side' = larger_side div 2 - 3 * border_top';
             center_width' = 6 * border_top'
         in (border_top', border_side', center_width'))
      else
        (let larger_side = imgheight';
             smaller_side = imgwidth';
             border_side' = smaller_side div 8;
             border_top' = larger_side div 2 - 3 * border_side';
             center_width' = 6 * border_side'
         in (border_top', border_side', center_width')))"

text \<open>
  Line 175:
  \<^verbatim>\<open>image_cropped[border_top:border_top+center_width, border_side:border_side+center_width]\<close>.
\<close>

definition crop :: "crop_plan \<Rightarrow> 'p image \<Rightarrow> 'p image" where
  "crop p img =
     map (py_slice (border_side p) (border_side p + center_width p))
       (py_slice (border_top p) (border_top p + center_width p) img)"

text \<open>Lines 153 to 175: the plan of an image and the crop it gives.\<close>

definition image_cropped :: "'p image \<Rightarrow> 'p image" where
  "image_cropped img = crop (crop_dimensions (imgheight img) (imgwidth img)) img"

section \<open>The candidate filter and the selection\<close>

text \<open>
  \<^verbatim>\<open>np.allclose(a, b, rtol, atol)\<close> holds when every pair of components satisfies
  \<^verbatim>\<open>abs(a - b) <= atol + rtol * abs(b)\<close>; its third argument is the relative
  tolerance and its fourth the absolute one.
\<close>

definition isclose :: "real \<Rightarrow> real \<Rightarrow> real \<Rightarrow> real \<Rightarrow> bool" where
  "isclose a b rtol atol = (\<bar>a - b\<bar> \<le> atol + rtol * \<bar>b\<bar>)"

definition allclose :: "point \<Rightarrow> point \<Rightarrow> real \<Rightarrow> real \<Rightarrow> bool" where
  "allclose a b rtol atol =
     (isclose (real_of_int (fst a)) (real_of_int (fst b)) rtol atol
      \<and> isclose (real_of_int (snd a)) (real_of_int (snd b)) rtol atol)"

text \<open>
  \<^verbatim>\<open>is_rubik_square\<close>, lines 128 to 132. The area of a contour is computed by the vision
  library, so it is the parameter \<open>contourArea\<close>. \<^verbatim>\<open>contour[0]\<close> raises on a contour
  without points.
\<close>

definition is_rubik_square :: "(contour \<Rightarrow> real) \<Rightarrow> contour \<Rightarrow> int \<Rightarrow> error + bool" where
  "is_rubik_square contourArea contour center_width' =
     (if contourArea contour \<ge> (real_of_int center_width' / 3 - real_of_int center_width' / 9)\<^sup>2
         \<and> contourArea contour \<le> (real_of_int center_width' / 3 + real_of_int center_width' / 9)\<^sup>2
      then (case contour of
              [] \<Rightarrow> Inl IndexError
            | _ # _ \<Rightarrow> Inr (allclose (hd contour) (last contour) 30 30))
      else Inr False)"

text \<open>Lines 182 to 186: the loop that keeps the contours \<^verbatim>\<open>is_rubik_square\<close> accepts.\<close>

fun closed_contours :: "(contour \<Rightarrow> real) \<Rightarrow> int \<Rightarrow> contour list \<Rightarrow> error + contour list" where
  "closed_contours contourArea w [] = Inr []"
| "closed_contours contourArea w (contour # contours) =
     (case is_rubik_square contourArea contour w of
        Inl e \<Rightarrow> Inl e
      | Inr b \<Rightarrow>
          (case closed_contours contourArea w contours of
             Inl e \<Rightarrow> Inl e
           | Inr rest \<Rightarrow> Inr (if b then contour # rest else rest)))"

text \<open>
  \<^verbatim>\<open>sorted(xs, key=k, reverse=True)\<close>: Python's sort is stable, and with
  \<^verbatim>\<open>reverse=True\<close> it orders by descending key and still keeps elements of equal key in
  their original order. That is an insertion sort on the negated key.
\<close>

definition sorted_reverse :: "('a \<Rightarrow> real) \<Rightarrow> 'a list \<Rightarrow> 'a list" where
  "sorted_reverse key xs = sort_key (\<lambda>x. - key x) xs"

text \<open>Lines 182 to 191: the selection of the nine largest accepted contours.\<close>

definition sticker_contours :: "(contour \<Rightarrow> real) \<Rightarrow> int \<Rightarrow> contour list \<Rightarrow> error + contour list" where
  "sticker_contours contourArea w contours =
     (case closed_contours contourArea w contours of
        Inl e \<Rightarrow> Inl e
      | Inr accepted \<Rightarrow> Inr (take 9 (sorted_reverse contourArea accepted)))"

text \<open>
  \<^verbatim>\<open>identify_stickers\<close>. Edge detection and contour finding belong to the vision library:
  together they are the parameter \<open>findContours\<close>, which receives the cropped image and
  may fail.
\<close>

definition identify_stickers ::
  "('p image \<Rightarrow> error + contour list) \<Rightarrow> (contour \<Rightarrow> real) \<Rightarrow> 'p image
     \<Rightarrow> error + ('p image \<times> contour list)" where
  "identify_stickers findContours contourArea img =
     (let p = crop_dimensions (imgheight img) (imgwidth img);
          cropped = crop p img
      in case findContours cropped of
           Inl e \<Rightarrow> Inl e
         | Inr contours \<Rightarrow>
             (case sticker_contours contourArea (true_center_width p) contours of
                Inl e \<Rightarrow> Inl e
              | Inr stickers \<Rightarrow> Inr (cropped, stickers)))"

section \<open>The grid labeler\<close>

text \<open>Lines 217 to 222 of \<^verbatim>\<open>correct_labels\<close>: the nine points, row by row.\<close>

definition point_tests :: "'p image \<Rightarrow> point list" where
  "point_tests cropped =
     (let standard_length = int (length cropped)
      in concat (map (\<lambda>y_coord_ind.
           map (\<lambda>x_coord_ind.
                  (standard_length div 4 * (x_coord_ind + 1),
                   standard_length div 4 * (y_coord_ind + 1)))
               [0, 1, 2])
           [0, 1, 2]))"

text \<open>
  Lines 225 to 228 and 241: the pairs (\<^verbatim>\<open>ptindex\<close>, \<^verbatim>\<open>cntindex\<close>) in the order in which
  the two loops append them. The point-in-polygon test is the vision library's, hence the
  parameter \<open>pointPolygonTest\<close>: positive inside, zero on the boundary, negative outside.
  The drawing done when \<^verbatim>\<open>display\<close> is set comes after the loops, leaves the list as
  it is, and is not modelled.
\<close>

definition correct_labels ::
  "(contour \<Rightarrow> point \<Rightarrow> real) \<Rightarrow> 'p image \<Rightarrow> contour list \<Rightarrow> (nat \<times> nat) list" where
  "correct_labels pointPolygonTest cropped stickers =
     concat (map (\<lambda>(cntindex, contour).
       concat (map (\<lambda>(ptindex, point).
                 if pointPolygonTest contour point > 0 then [(ptindex, cntindex)] else [])
               (enumerate 0 (point_tests cropped))))
       (enumerate 0 stickers))"

section \<open>Concrete stand-ins for the library functions\<close>

text \<open>
  The area enclosed by a polygon with integer vertices, by the shoelace formula, and the
  point-in-polygon test of an axis-parallel rectangle given by its corners (positive
  strictly inside, zero on the boundary, negative outside). They instantiate the
  parameters \<open>contourArea\<close> and \<open>pointPolygonTest\<close> where a statement is evaluated on
  concrete contours.
\<close>

fun shoelace_sum :: "point \<Rightarrow> point list \<Rightarrow> int" where
  "shoelace_sum prev [] = 0"
| "shoelace_sum prev (p # ps) =
     fst prev * snd p - snd prev * fst p + shoelace_sum p ps"

definition shoelace_area :: "contour \<Rightarrow> real" where
  "shoelace_area contour =
     (case contour of
        [] \<Rightarrow> 0
      | _ # _ \<Rightarrow> \<bar>real_of_int (shoelace_sum (last contour) contour)\<bar> / 2)"

definition rectangle_test :: "contour \<Rightarrow> point \<Rightarrow> real" where
  "rectangle_test contour pt =
     (let xs = map fst contour; ys = map snd contour;
          x = fst pt; y = snd pt
      in if contour = [] then - 1
         else if Min (set xs) < x \<and> x < Max (set xs) \<and> Min (set ys) < y \<and> y < Max (set ys) then 1
         else if Min (set xs) \<le> x \<and> x \<le> Max (set xs) \<and> Min (set ys) \<le> y \<and> y \<le> Max (set ys) then 0
         else - 1)"

section \<open>The geometry\<close>

lemma py_slice_length:
  assumes "0 \<le> a" and "0 \<le> w" and "a + w \<le> int (length xs)"
  shows "int (length (py_slice a (a + w) xs)) = w"
  using assms by (simp add: py_slice_def Let_def min_def) linarith

lemma crop_dimensions_nonneg:
  assumes "0 \<le> H" and "0 \<le> W"
  shows "0 \<le> border_top (crop_dimensions H W)"
    and "0 \<le> border_side (crop_dimensions H W)"
    and "0 \<le> center_width (crop_dimensions H W)"
    and "border_top (crop_dimensions H W) + center_width (crop_dimensions H W) \<le> H"
    and "border_side (crop_dimensions H W) + center_width (crop_dimensions H W) \<le> W"
  using assms by (simp_all add: crop_dimensions_def Let_def) linarith+

text \<open>
  C6: an image of height 600 and width 800 has the inner scale 300, the outer scale 450,
  the top offset 75, which is the border of the shorter side, and the left offset 175; an
  image of height 800 and width 600 has the left offset 75 and the top offset 175, with the
  same scales.
\<close>

theorem crop_dimensions_600_800:
  "crop_dimensions 600 800 =
     \<lparr>border_top = 75, border_side = 175, true_center_width = 300, center_width = 450\<rparr>
   \<and> crop_dimensions 800 600 =
     \<lparr>border_top = 175, border_side = 75, true_center_width = 300, center_width = 450\<rparr>"
  by (simp add: crop_dimensions_def)

text \<open>
  C9: for every height and width, \<^verbatim>\<open>guidelines\<close> computes the same \<^verbatim>\<open>border_top\<close>,
  \<^verbatim>\<open>border_side\<close> and \<^verbatim>\<open>center_width\<close> as \<^verbatim>\<open>identify_stickers\<close>, in both branches.
\<close>

theorem guidelines_dimensions_eq:
  "guidelines_dimensions H W =
     (border_top (crop_dimensions H W), border_side (crop_dimensions H W),
      center_width (crop_dimensions H W))"
  by (simp add: guidelines_dimensions_def crop_dimensions_def Let_def)

text \<open>
  C7: for every height \<open>H\<close> and width \<open>W\<close> the outer scale is \<open>6 * (min H W div 8)\<close> and
  the inner scale \<open>4 * (min H W div 8)\<close>; when both are at least 8 the crop window lies
  within the image, and the crop of a rectangular image of that size is a square of
  \<^verbatim>\<open>center_width\<close> rows of \<^verbatim>\<open>center_width\<close> pixels.
\<close>

theorem crop_window_invariant:
  "center_width (crop_dimensions H W) = 6 * (min H W div 8)
   \<and> true_center_width (crop_dimensions H W) = 4 * (min H W div 8)
   \<and> (8 \<le> H \<and> 8 \<le> W \<longrightarrow>
        0 \<le> border_top (crop_dimensions H W)
        \<and> border_top (crop_dimensions H W) + center_width (crop_dimensions H W) \<le> H
        \<and> 0 \<le> border_side (crop_dimensions H W)
        \<and> border_side (crop_dimensions H W) + center_width (crop_dimensions H W) \<le> W)
   \<and> (8 \<le> imgheight img \<and> 8 \<le> imgwidth img
        \<and> (\<forall>row \<in> set img. int (length row) = imgwidth img) \<longrightarrow>
        int (length (image_cropped img))
          = center_width (crop_dimensions (imgheight img) (imgwidth img))
        \<and> (\<forall>row \<in> set (image_cropped img).
              int (length row) = center_width (crop_dimensions (imgheight img) (imgwidth img))))"
proof (intro conjI impI)
  show "center_width (crop_dimensions H W) = 6 * (min H W div 8)"
    by (simp add: crop_dimensions_def Let_def min_def)
  show "true_center_width (crop_dimensions H W) = 4 * (min H W div 8)"
    by (simp add: crop_dimensions_def Let_def min_def)
next
  assume "8 \<le> H \<and> 8 \<le> W"
  then have hw: "0 \<le> H" "0 \<le> W" by simp_all
  show "0 \<le> border_top (crop_dimensions H W)"
    and "border_top (crop_dimensions H W) + center_width (crop_dimensions H W) \<le> H"
    and "0 \<le> border_side (crop_dimensions H W)"
    and "border_side (crop_dimensions H W) + center_width (crop_dimensions H W) \<le> W"
    using crop_dimensions_nonneg [OF hw] by simp_all
next
  let ?p = "crop_dimensions (imgheight img) (imgwidth img)"
  assume a: "8 \<le> imgheight img \<and> 8 \<le> imgwidth img
        \<and> (\<forall>row \<in> set img. int (length row) = imgwidth img)"
  have hw: "0 \<le> imgheight img" "0 \<le> imgwidth img" using a by simp_all
  note nn = crop_dimensions_nonneg [OF hw]
  have rows: "int (length (py_slice (border_top ?p) (border_top ?p + center_width ?p) img))
                = center_width ?p"
    using nn by (intro py_slice_length) (simp_all add: imgheight_def)
  show "int (length (image_cropped img)) = center_width ?p"
    using rows by (simp add: image_cropped_def crop_def)
  show "\<forall>row \<in> set (image_cropped img). int (length row) = center_width ?p"
  proof
    fix row assume "row \<in> set (image_cropped img)"
    then obtain r where r: "r \<in> set (py_slice (border_top ?p) (border_top ?p + center_width ?p) img)"
      and row: "row = py_slice (border_side ?p) (border_side ?p + center_width ?p) r"
      by (auto simp: image_cropped_def crop_def)
    from r have "r \<in> set img"
      by (auto simp: py_slice_def Let_def dest: in_set_takeD in_set_dropD)
    with a have "int (length r) = imgwidth img" by simp
    with nn show "int (length row) = center_width ?p"
      unfolding row by (intro py_slice_length) simp_all
  qed
qed

theorem crop_window_invariant_witness:
  "(8::int) \<le> 600 \<and> (8::int) \<le> 800
   \<and> 8 \<le> imgheight (replicate 8 (replicate 8 (0::nat)))
   \<and> 8 \<le> imgwidth (replicate 8 (replicate 8 (0::nat)))
   \<and> list_all (\<lambda>row. int (length row) = imgwidth (replicate 8 (replicate 8 (0::nat))))
         (replicate 8 (replicate 8 (0::nat)))
   \<and> border_side (crop_dimensions 600 800) + center_width (crop_dimensions 600 800) \<le> 800
   \<and> int (length (image_cropped (replicate 8 (replicate 8 (0::nat))))) = 6"
  using crop_window_invariant [of 600 800 "replicate 8 (replicate 8 (0::nat))"]
  by (simp add: imgheight_def imgwidth_def crop_dimensions_def numeral_eq_Suc list_all_iff)

section \<open>The grid labeler: results\<close>

lemma point_tests_conv:
  "point_tests cropped =
     map (\<lambda>g. (int (length cropped) div 4 * (int (g mod 3) + 1),
               int (length cropped) div 4 * (int (g div 3) + 1))) [0..<9]"
proof -
  have "[0..<9] = [0, 1, 2, 3, 4, 5, 6, 7, 8 :: nat]"
    by (simp add: upt_rec)
  then show ?thesis
    by (simp add: point_tests_def Let_def)
qed

lemma length_point_tests: "length (point_tests cropped) = 9"
  by (simp add: point_tests_conv)

lemma nth_point_tests:
  "g < 9 \<Longrightarrow> point_tests cropped ! g =
     (int (length cropped) div 4 * (int (g mod 3) + 1),
      int (length cropped) div 4 * (int (g div 3) + 1))"
  unfolding point_tests_conv by (subst nth_map) simp_all

lemma map_enumerate_nth:
  "map f (enumerate 0 xs) = map (\<lambda>i. f (i, xs ! i)) [0..<length xs]"
  by (rule nth_equalityI) (simp_all add: nth_enumerate_eq)

lemma concat_map_if:
  "concat (map (\<lambda>x. if P x then [f x] else []) xs) = map f (filter P xs)"
  by (induction xs) simp_all

lemma correct_labels_conv:
  "correct_labels ppt cropped stickers =
     concat (map (\<lambda>k. map (\<lambda>g. (g, k))
                    (filter (\<lambda>g. ppt (stickers ! k) (point_tests cropped ! g) > 0)
                       [0..<length (point_tests cropped)]))
               [0..<length stickers])"
  unfolding correct_labels_def by (simp add: map_enumerate_nth concat_map_if)

lemma set_correct_labels:
  "set (correct_labels ppt cropped stickers) =
     {(g, k). g < length (point_tests cropped) \<and> k < length stickers
              \<and> ppt (stickers ! k) (point_tests cropped ! g) > 0}"
  by (auto simp: correct_labels_conv)

text \<open>
  C1: the list returned by \<^verbatim>\<open>correct_labels\<close> contains the pair \<open>(g, k)\<close> exactly when
  \<open>g\<close> is one of the nine grid indices, \<open>k\<close> indexes a contour, and the grid point of row
  \<open>g div 3\<close> and column \<open>g mod 3\<close>, that is
  \<open>(side div 4 * (column + 1), side div 4 * (row + 1))\<close> for the side length of the crop,
  is strictly inside contour \<open>k\<close> (the test is positive). A grid point on the boundary of
  contour \<open>k\<close> (the test is zero) gives no pair.
\<close>

theorem correct_labels_iff:
  "((g, k) \<in> set (correct_labels ppt cropped stickers) \<longleftrightarrow>
      g < 9 \<and> k < length stickers
      \<and> ppt (stickers ! k)
            (int (length cropped) div 4 * (int (g mod 3) + 1),
             int (length cropped) div 4 * (int (g div 3) + 1)) > 0)
   \<and> (ppt (stickers ! k)
            (int (length cropped) div 4 * (int (g mod 3) + 1),
             int (length cropped) div 4 * (int (g div 3) + 1)) = 0
        \<longrightarrow> (g, k) \<notin> set (correct_labels ppt cropped stickers))"
  by (auto simp: set_correct_labels length_point_tests nth_point_tests)


theorem correct_labels_iff_witness:
  "rectangle_test [(3, 1), (3, 5), (6, 5), (6, 1)]
       (int (length (replicate 12 (replicate 12 (0::nat)))) div 4 * (int (0 mod 3) + 1),
        int (length (replicate 12 (replicate 12 (0::nat)))) div 4 * (int (0 div 3) + 1)) = 0
   \<and> (0, 0) \<notin> set (correct_labels rectangle_test (replicate 12 (replicate 12 (0::nat)))
                       [[(3, 1), (3, 5), (6, 5), (6, 1)]])"
  using correct_labels_iff [of 0 0 rectangle_test "replicate 12 (replicate 12 (0::nat))"
      "[[(3, 1), (3, 5), (6, 5), (6, 1)]]"]
  by (simp add: rectangle_test_def)

lemma sorted_wrt_concat_map_upt:
  assumes "\<And>k. sorted_wrt R (F k)"
    and "\<And>i j x y. i < j \<Longrightarrow> x \<in> set (F i) \<Longrightarrow> y \<in> set (F j) \<Longrightarrow> R x y"
  shows "sorted_wrt R (concat (map F [0..<n]))"
proof (induction n)
  case 0
  show ?case by simp
next
  case (Suc n)
  have "\<forall>x \<in> set (concat (map F [0..<n])). \<forall>y \<in> set (F n). R x y"
    using assms(2) by auto
  with Suc assms(1) show ?case
    by (simp add: sorted_wrt_append)
qed

text \<open>
  C2, as the code has it: the contour index is the outer loop and the grid index the inner
  one, so the list returned is strictly ascending in the lexicographic order of
  (contour index \<open>k\<close>, grid index \<open>g\<close>).
\<close>

theorem correct_labels_order:
  "sorted_wrt (\<lambda>(g, k) (g', k'). k < k' \<or> (k = k' \<and> g < g'))
     (correct_labels ppt cropped stickers)"
  unfolding correct_labels_conv
proof (rule sorted_wrt_concat_map_upt)
  fix k
  have "sorted_wrt (<) (filter (\<lambda>g. ppt (stickers ! k) (point_tests cropped ! g) > 0)
                          [0..<length (point_tests cropped)])"
    by (rule sorted_wrt_filter) simp
  then show "sorted_wrt (\<lambda>(g, k) (g', k'). k < k' \<or> (k = k' \<and> g < g'))
               (map (\<lambda>g. (g, k))
                  (filter (\<lambda>g. ppt (stickers ! k) (point_tests cropped ! g) > 0)
                     [0..<length (point_tests cropped)]))"
    by (simp add: sorted_wrt_map)
next
  fix i j :: nat and x y :: "nat \<times> nat"
  assume "i < j"
    and "x \<in> set (map (\<lambda>g. (g, i))
                  (filter (\<lambda>g. ppt (stickers ! i) (point_tests cropped ! g) > 0)
                     [0..<length (point_tests cropped)]))"
    and "y \<in> set (map (\<lambda>g. (g, j))
                  (filter (\<lambda>g. ppt (stickers ! j) (point_tests cropped ! g) > 0)
                     [0..<length (point_tests cropped)]))"
  then show "(case x of (g, k) \<Rightarrow> \<lambda>(g', k'). k < k' \<or> (k = k' \<and> g < g')) y"
    by auto
qed

text \<open>
  C2, as stated, fails: on a crop of side 12 the grid points are \<open>(3, 3)\<close>, \<open>(6, 3)\<close>, ...
  The first square contains grid point 1 only and the second square grid point 0 only; the
  pair of contour 0 comes first, so the list is not ordered by (grid index, contour index).
\<close>

lemma correct_labels_two_squares:
  "correct_labels rectangle_test (replicate 12 (replicate 12 (0::nat)))
     [[(5, 2), (5, 4), (7, 4), (7, 2)], [(2, 2), (2, 4), (4, 4), (4, 2)]] = [(1, 0), (0, 1)]"
  by (simp add: correct_labels_def point_tests_def enumerate_eq_zip upt_rec rectangle_test_def Let_def)

theorem correct_labels_order_counterexample:
  "correct_labels rectangle_test (replicate 12 (replicate 12 (0::nat)))
     [[(5, 2), (5, 4), (7, 4), (7, 2)], [(2, 2), (2, 4), (4, 4), (4, 2)]] = [(1, 0), (0, 1)]
   \<and> \<not> sorted_wrt (\<lambda>(g, k) (g', k'). g < g' \<or> (g = g' \<and> k \<le> k'))
        (correct_labels rectangle_test (replicate 12 (replicate 12 (0::nat)))
           [[(5, 2), (5, 4), (7, 4), (7, 2)], [(2, 2), (2, 4), (4, 4), (4, 2)]])"
  by (simp add: correct_labels_two_squares)

text \<open>
  C10: when the crop has at least four rows, \<^verbatim>\<open>correct_labels\<close> builds nine pairwise
  distinct grid points, every coordinate of which lies strictly between 0 and the side
  length, and two crops of the same side length have the same grid points.
\<close>

theorem point_tests_inside:
  "4 \<le> length cropped \<longrightarrow>
     length (point_tests cropped) = 9
     \<and> distinct (point_tests cropped)
     \<and> (\<forall>(x, y) \<in> set (point_tests cropped).
           0 < x \<and> x < int (length cropped) \<and> 0 < y \<and> y < int (length cropped))
     \<and> (\<forall>other :: 'a image. length other = length cropped \<longrightarrow>
           point_tests other = point_tests cropped)"
proof (intro impI conjI allI)
  assume len: "4 \<le> length cropped"
  define q where "q = int (length cropped) div 4"
  have q: "1 \<le> q" "3 * q < int (length cropped)"
    using len unfolding q_def by linarith+
  have pts: "point_tests cropped =
      [(q, q), (q * 2, q), (q * 3, q), (q, q * 2), (q * 2, q * 2), (q * 3, q * 2),
       (q, q * 3), (q * 2, q * 3), (q * 3, q * 3)]"
    by (simp add: point_tests_def Let_def q_def)
  show "length (point_tests cropped) = 9" by (simp add: pts)
  show "distinct (point_tests cropped)" using q(1) by (simp add: pts)
  show "\<forall>(x, y) \<in> set (point_tests cropped).
           0 < x \<and> x < int (length cropped) \<and> 0 < y \<and> y < int (length cropped)"
    using q by (simp add: pts)
next
  fix other :: "'a image"
  assume "length other = length cropped"
  then show "point_tests other = point_tests cropped"
    by (simp add: point_tests_def)
qed

theorem point_tests_inside_witness:
  "4 \<le> length (replicate 12 (replicate 12 (0::nat)))
   \<and> distinct (point_tests (replicate 12 (replicate 12 (0::nat))))
   \<and> length (replicate 12 (replicate 3 (1::nat))) = length (replicate 12 (replicate 12 (0::nat)))
   \<and> point_tests (replicate 12 (replicate 3 (1::nat)))
       = point_tests (replicate 12 (replicate 12 (0::nat)))"
  using point_tests_inside [of "replicate 12 (replicate 12 (0::nat))"]
  by (simp add: point_tests_def)

section \<open>The candidate filter: results\<close>

text \<open>
  C8: a contour that passes the closure check is accepted by \<^verbatim>\<open>is_rubik_square\<close> exactly
  when its area lies between \<open>(w / 3 - w / 9)\<^sup>2\<close> and \<open>(w / 3 + w / 9)\<^sup>2\<close>, both bounds
  included, the division being that of the reals. For \<open>w = 300\<close> the area 10000 is accepted,
  and the areas \<open>(300 / 3 - 300 / 9)\<^sup>2 - 1\<close> and \<open>(300 / 3 + 300 / 9)\<^sup>2 + 1\<close> are
  rejected.
\<close>

theorem is_rubik_square_band:
  "contour \<noteq> [] \<and> allclose (hd contour) (last contour) 30 30 \<longrightarrow>
     (is_rubik_square contourArea contour w = Inr True \<longleftrightarrow>
        (real_of_int w / 3 - real_of_int w / 9)\<^sup>2 \<le> contourArea contour
        \<and> contourArea contour \<le> (real_of_int w / 3 + real_of_int w / 9)\<^sup>2)
     \<and> is_rubik_square (\<lambda>c. 10000) contour 300 = Inr True
     \<and> is_rubik_square (\<lambda>c. (300 / 3 - 300 / 9)\<^sup>2 - 1) contour 300 = Inr False
     \<and> is_rubik_square (\<lambda>c. (300 / 3 + 300 / 9)\<^sup>2 + 1) contour 300 = Inr False"
proof (intro impI conjI)
  assume a: "contour \<noteq> [] \<and> allclose (hd contour) (last contour) 30 30"
  then obtain p ps where c: "contour = p # ps" by (cases contour) auto
  show "is_rubik_square contourArea contour w = Inr True \<longleftrightarrow>
        (real_of_int w / 3 - real_of_int w / 9)\<^sup>2 \<le> contourArea contour
        \<and> contourArea contour \<le> (real_of_int w / 3 + real_of_int w / 9)\<^sup>2"
    using a by (auto simp: is_rubik_square_def c)
  show "is_rubik_square (\<lambda>c. 10000) contour 300 = Inr True"
    using a by (simp add: is_rubik_square_def c power2_eq_square)
  show "is_rubik_square (\<lambda>c. (300 / 3 - 300 / 9)\<^sup>2 - 1) contour 300 = Inr False"
    by (simp add: is_rubik_square_def)
  show "is_rubik_square (\<lambda>c. (300 / 3 + 300 / 9)\<^sup>2 + 1) contour 300 = Inr False"
    by (simp add: is_rubik_square_def)
qed

lemma shoelace_square_100:
  "shoelace_area [(0, 0), (0, 100), (100, 100), (100, 0), (0, 0)] = 10000"
  by (simp add: shoelace_area_def)

theorem is_rubik_square_band_witness:
  "[(0, 0), (0, 100), (100, 100), (100, 0), (0, 0)] \<noteq> ([] :: contour)
   \<and> allclose (hd [(0, 0), (0, 100), (100, 100), (100, 0), (0, 0)])
        (last [(0, 0), (0, 100), (100, 100), (100, 0), (0, 0)]) 30 30
   \<and> is_rubik_square shoelace_area [(0, 0), (0, 100), (100, 100), (100, 0), (0, 0)] 300 = Inr True
   \<and> is_rubik_square (\<lambda>c. (300 / 3 - 300 / 9)\<^sup>2 - 1)
        [(0, 0), (0, 100), (100, 100), (100, 0), (0, 0)] 300 = Inr False"
  using is_rubik_square_band [of "[(0, 0), (0, 100), (100, 100), (100, 0), (0, 0)]"
      shoelace_area 300]
  by (simp add: allclose_def isclose_def shoelace_square_100 power2_eq_square)

text \<open>
  C3: the closure check is \<^verbatim>\<open>np.allclose(contour[0], contour[-1], 30, 30)\<close>, whose
  tolerance on each axis is \<open>30 + 30 * \<bar>last\<bar>\<close>, not 30. All four contours below have an
  area inside the band for the width 60. The first and the second have first and last
  points that differ by \<open>(31, 0)\<close>: the first is accepted, its last point having the
  abscissa 1, and the second is rejected, its last point being the origin. The third has
  first and last points that differ by \<open>(29, 29)\<close> and is accepted. The fourth, whose
  ends are 290 pixels apart, is accepted as closed too.
\<close>

theorem closure_tolerance_is_relative:
  "is_rubik_square shoelace_area [(32, 0), (32, 10), (1, 10), (1, 0)] 60 = Inr True
   \<and> is_rubik_square shoelace_area [(31, 0), (31, 10), (0, 10), (0, 0)] 60 = Inr False
   \<and> is_rubik_square shoelace_area [(30, 30), (30, 40), (1, 40), (1, 1)] 60 = Inr True
   \<and> is_rubik_square shoelace_area [(300, 0), (300, 2), (10, 2), (10, 0)] 60 = Inr True"
  by (simp add: is_rubik_square_def shoelace_area_def allclose_def isclose_def
      power2_eq_square)

section \<open>The selection and the small images: results\<close>

lemma is_rubik_square_nonempty:
  "contour \<noteq> [] \<Longrightarrow> \<exists>b. is_rubik_square contourArea contour w = Inr b"
  by (cases contour) (auto simp: is_rubik_square_def)

lemma closed_contours_filter:
  "\<forall>c \<in> set contours. c \<noteq> [] \<Longrightarrow>
     closed_contours contourArea w contours
       = Inr (filter (\<lambda>c. is_rubik_square contourArea c w = Inr True) contours)"
proof (induction contours)
  case Nil
  show ?case by simp
next
  case (Cons c cs)
  then obtain b where "is_rubik_square contourArea c w = Inr b"
    using is_rubik_square_nonempty [of c contourArea w] by auto
  with Cons show ?case by simp
qed

lemma sorted_reverse_descending:
  "sorted_wrt (\<lambda>a b. key a \<ge> key b) (sorted_reverse key xs)"
proof -
  have "sorted (map (\<lambda>x. - key x) (sort_key (\<lambda>x. - key x) xs))"
    by (rule sorted_sort_key)
  then show ?thesis
    by (simp add: sorted_reverse_def sorted_map)
qed

lemma sorted_reverse_stable:
  "filter (\<lambda>x. key x = v) (sorted_reverse key xs) = filter (\<lambda>x. key x = v) xs"
  using sort_key_stable [of "\<lambda>x. - key x" "- v" xs]
  by (simp add: sorted_reverse_def)

lemma mset_sorted_reverse: "mset (sorted_reverse key xs) = mset xs"
  by (simp add: sorted_reverse_def)

lemma shoelace_examples:
  "map shoelace_area
     [[(0, 0), (0, 10), (5, 10), (5, 0)], [(0, 0), (0, 10), (7, 10), (7, 0)],
      [(0, 0), (0, 7), (10, 7), (10, 0)], [(0, 0), (0, 5), (6, 5), (6, 0)]] = [50, 70, 70, 30]"
  by (simp add: shoelace_area_def)

lemma sticker_contours_example:
  "sticker_contours shoelace_area 20
     [[(0, 0), (0, 10), (5, 10), (5, 0)], [(0, 0), (0, 10), (7, 10), (7, 0)],
      [(0, 0), (0, 7), (10, 7), (10, 0)], [(0, 0), (0, 5), (6, 5), (6, 0)]]
   = Inr [[(0, 0), (0, 10), (7, 10), (7, 0)], [(0, 0), (0, 7), (10, 7), (10, 0)],
          [(0, 0), (0, 10), (5, 10), (5, 0)], [(0, 0), (0, 5), (6, 5), (6, 0)]]"
  by (simp add: sticker_contours_def sorted_reverse_def is_rubik_square_def shoelace_area_def
      allclose_def isclose_def power2_eq_square)

text \<open>
  C5: when no contour is empty, the selection returns the first nine of a list that holds
  exactly the contours \<^verbatim>\<open>is_rubik_square\<close> accepts, in descending order of area,
  contours of equal area keeping the order in which they came. Four accepted contours of
  areas 50, 70, 70 and 30, in that order, are returned as the second, the third, the first
  and the fourth.
\<close>

theorem sticker_contours_stable:
  "((\<forall>c \<in> set contours. c \<noteq> []) \<longrightarrow>
      (\<exists>ranked.
         sticker_contours contourArea w contours = Inr (take 9 ranked)
         \<and> mset ranked
             = mset (filter (\<lambda>c. is_rubik_square contourArea c w = Inr True) contours)
         \<and> sorted_wrt (\<lambda>a b. contourArea a \<ge> contourArea b) ranked
         \<and> (\<forall>v. filter (\<lambda>c. contourArea c = v) ranked
                = filter (\<lambda>c. contourArea c = v)
                    (filter (\<lambda>c. is_rubik_square contourArea c w = Inr True) contours))))
   \<and> map shoelace_area
       [[(0, 0), (0, 10), (5, 10), (5, 0)], [(0, 0), (0, 10), (7, 10), (7, 0)],
        [(0, 0), (0, 7), (10, 7), (10, 0)], [(0, 0), (0, 5), (6, 5), (6, 0)]] = [50, 70, 70, 30]
   \<and> sticker_contours shoelace_area 20
       [[(0, 0), (0, 10), (5, 10), (5, 0)], [(0, 0), (0, 10), (7, 10), (7, 0)],
        [(0, 0), (0, 7), (10, 7), (10, 0)], [(0, 0), (0, 5), (6, 5), (6, 0)]]
     = Inr [[(0, 0), (0, 10), (7, 10), (7, 0)], [(0, 0), (0, 7), (10, 7), (10, 0)],
            [(0, 0), (0, 10), (5, 10), (5, 0)], [(0, 0), (0, 5), (6, 5), (6, 0)]]"
proof (intro conjI impI)
  assume ne: "\<forall>c \<in> set contours. c \<noteq> []"
  let ?acc = "filter (\<lambda>c. is_rubik_square contourArea c w = Inr True) contours"
  let ?ranked = "sorted_reverse contourArea ?acc"
  have "sticker_contours contourArea w contours = Inr (take 9 ?ranked)"
    by (simp add: sticker_contours_def closed_contours_filter [OF ne])
  moreover have "mset ?ranked = mset ?acc"
    by (rule mset_sorted_reverse)
  moreover have "sorted_wrt (\<lambda>a b. contourArea a \<ge> contourArea b) ?ranked"
    by (rule sorted_reverse_descending)
  moreover have "\<forall>v. filter (\<lambda>c. contourArea c = v) ?ranked
                     = filter (\<lambda>c. contourArea c = v) ?acc"
    by (simp add: sorted_reverse_stable)
  ultimately show "\<exists>ranked.
         sticker_contours contourArea w contours = Inr (take 9 ranked)
         \<and> mset ranked = mset ?acc
         \<and> sorted_wrt (\<lambda>a b. contourArea a \<ge> contourArea b) ranked
         \<and> (\<forall>v. filter (\<lambda>c. contourArea c = v) ranked
                = filter (\<lambda>c. contourArea c = v) ?acc)"
    by blast
qed (rule shoelace_examples, rule sticker_contours_example)

theorem sticker_contours_stable_witness:
  "[] \<notin> set [[(0, 0), (0, 10), (5, 10), (5, 0)], [(0, 0), (0, 10), (7, 10), (7, 0)],
        [(0, 0), (0, 7), (10, 7), (10, 0)], [(0::int, 0::int), (0, 5), (6, 5), (6, 0)]]
   \<and> (\<exists>ranked.
         sticker_contours shoelace_area 20
           [[(0, 0), (0, 10), (5, 10), (5, 0)], [(0, 0), (0, 10), (7, 10), (7, 0)],
            [(0, 0), (0, 7), (10, 7), (10, 0)], [(0, 0), (0, 5), (6, 5), (6, 0)]]
           = Inr (take 9 ranked)
         \<and> sorted_wrt (\<lambda>a b. shoelace_area a \<ge> shoelace_area b) ranked)"
  using sticker_contours_stable [of
      "[[(0, 0), (0, 10), (5, 10), (5, 0)], [(0, 0), (0, 10), (7, 10), (7, 0)],
        [(0, 0), (0, 7), (10, 7), (10, 0)], [(0, 0), (0, 5), (6, 5), (6, 0)]]"
      shoelace_area 20]
  by auto

lemma py_slice_same: "py_slice a a xs = []"
  by (simp add: py_slice_def Let_def)

text \<open>
  C4, as the code has it: for an image whose shorter side is below 8, the geometry and the
  crop raise nothing; both scales are 0 and the crop is empty, and \<^verbatim>\<open>identify_stickers\<close>
  hands that empty crop to the contour finder, so that an error can only be one that the
  contour finder or the filter raises.
\<close>

theorem small_image_empty_crop:
  "min (imgheight img) (imgwidth img) < 8 \<longrightarrow>
     true_center_width (crop_dimensions (imgheight img) (imgwidth img)) = 0
     \<and> center_width (crop_dimensions (imgheight img) (imgwidth img)) = 0
     \<and> image_cropped img = []
     \<and> identify_stickers findContours contourArea img =
         (case findContours [] of
            Inl e \<Rightarrow> Inl e
          | Inr contours \<Rightarrow>
              (case sticker_contours contourArea 0 contours of
                 Inl e \<Rightarrow> Inl e
               | Inr stickers \<Rightarrow> Inr ([], stickers)))"
proof
  let ?p = "crop_dimensions (imgheight img) (imgwidth img)"
  assume small: "min (imgheight img) (imgwidth img) < 8"
  have nn: "0 \<le> imgheight img" "0 \<le> imgwidth img"
    by (simp_all add: imgheight_def imgwidth_def split: list.splits)
  have "min (imgheight img) (imgwidth img) div 8 = 0"
    using small nn by simp
  then have w: "true_center_width ?p = 0" "center_width ?p = 0"
    by (simp_all add: crop_dimensions_def Let_def min_def split: if_splits)
  have c: "crop ?p img = []"
    by (simp add: crop_def w py_slice_same)
  show "true_center_width ?p = 0 \<and> center_width ?p = 0 \<and> image_cropped img = []
     \<and> identify_stickers findContours contourArea img =
         (case findContours [] of
            Inl e \<Rightarrow> Inl e
          | Inr contours \<Rightarrow>
              (case sticker_contours contourArea 0 contours of
                 Inl e \<Rightarrow> Inl e
               | Inr stickers \<Rightarrow> Inr ([], stickers)))"
    using w c by (simp add: image_cropped_def identify_stickers_def Let_def split: sum.splits)
qed

theorem small_image_empty_crop_witness:
  "min (imgheight (replicate 5 (replicate 5 (0::nat)))) (imgwidth (replicate 5 (replicate 5 (0::nat)))) < 8
   \<and> identify_stickers (\<lambda>cropped. if cropped = [] then Inl LibraryError else Inr [])
        shoelace_area (replicate 5 (replicate 5 (0::nat))) = Inl LibraryError"
  using small_image_empty_crop [of "replicate 5 (replicate 5 (0::nat))"
      "\<lambda>cropped. if cropped = [] then Inl LibraryError else Inr []" shoelace_area]
  by (simp add: imgheight_def imgwidth_def numeral_eq_Suc)

text \<open>
  C4, as stated, fails: for an image of 5 by 5 pixels the code computes, without any check
  of the size, the plan with both scales 0 and the empty crop.
\<close>

theorem small_image_counterexample:
  "min (imgheight (replicate 5 (replicate 5 (0::nat)))) (imgwidth (replicate 5 (replicate 5 (0::nat)))) < 8
   \<and> crop_dimensions (imgheight (replicate 5 (replicate 5 (0::nat))))
        (imgwidth (replicate 5 (replicate 5 (0::nat))))
       = \<lparr>border_top = 0, border_side = 2, true_center_width = 0, center_width = 0\<rparr>
   \<and> image_cropped (replicate 5 (replicate 5 (0::nat))) = []"
  by (simp add: image_cropped_def crop_def crop_dimensions_def imgheight_def imgwidth_def
      py_slice_def numeral_eq_Suc)

end
